theory Spec2Isabelle
  imports Complex_Main "HOL-Library.Char_ord" "HOL-Library.List_Lexorder"
begin

section \<open>What the JavaScript engine and the libraries provide\<close>

text \<open>
  Timestamps and offsets are JavaScript Numbers, that is IEEE doubles: their sums and
  differences are rounded, and their string form is the engine's. The model does not fix
  them. It is polymorphic in the type \<open>'n\<close> of Numbers and takes the operations of the
  engine on them, together with the library functions that the code calls, as a record
  of parameters:
  \<^item> \<open>numAdd\<close>, \<open>numSub\<close>: \<^verbatim>\<open>a + b\<close> and \<^verbatim>\<open>a - b\<close> on Numbers; \<open>numTimes1000\<close>: \<^verbatim>\<open>a * 1000\<close>;
    \<open>numLess\<close>: \<^verbatim>\<open>a < b\<close>;
  \<^item> \<open>numString\<close>: the string form of a Number (\<^verbatim>\<open>toString\<close>, also the property key under
    which a Number is stored in an object); \<open>parseFloatOf\<close>: \<^verbatim>\<open>parseFloat\<close> on a string;
  \<^item> \<open>formatTime\<close>: \<^verbatim>\<open>com.formatTime\<close>, which throws a RangeError (\<open>None\<close>) where the
    timestamp is not a valid date; \<open>dateToUtc\<close>: the UTC day, \<^verbatim>\<open>com.dateToUtc\<close>;
  \<^item> \<open>numberToString\<close>: \<^verbatim>\<open>toString\<close> of a coordinate; \<open>integerToString\<close>: \<^verbatim>\<open>toString\<close> of
    an altitude;
  \<^item> \<open>blake2b\<close>: the BLAKE2b digest of a given length in bytes.
\<close>

type_synonym bytes = "nat list"

record 'n externals =
  numAdd :: "'n \<Rightarrow> 'n \<Rightarrow> 'n"
  numSub :: "'n \<Rightarrow> 'n \<Rightarrow> 'n"
  numTimes1000 :: "'n \<Rightarrow> 'n"
  numLess :: "'n \<Rightarrow> 'n \<Rightarrow> bool"
  numString :: "'n \<Rightarrow> string"
  parseFloatOf :: "string \<Rightarrow> 'n"
  formatTime :: "'n \<Rightarrow> string option"
  dateToUtc :: "'n \<Rightarrow> string"
  numberToString :: "real \<Rightarrow> string"
  integerToString :: "int \<Rightarrow> string"
  blake2b :: "nat \<Rightarrow> string \<Rightarrow> bytes"

section \<open>Traces and the store of sample arrays\<close>

text \<open>
  A raw sample of a trace is a JavaScript array
  \<^verbatim>\<open>[offset, lat, lon, alt, gs, track, ?, rate, ?, source]\<close>. Arrays are objects: the
  trace holds references to them, and \<^verbatim>\<open>normaliseTimestamps\<close> writes into them. The
  store maps an address to the array found there. Fields that the feed gives as
  \<^verbatim>\<open>null\<close> are \<open>None\<close>.
\<close>

datatype altitude = Ground | Feet int

record 'n traceObject =
  offset :: 'n
  lat :: "real option"
  lon :: "real option"
  alt :: "altitude option"
  gs :: "real option"
  track :: "real option"
  rate :: "int option"
  source :: "string option"

type_synonym addr = nat
type_synonym 'n store = "addr \<Rightarrow> 'n traceObject"

text \<open>An AircraftTrace; \<open>reg_r\<close> and \<open>type_t\<close> are the feed's keys \<^verbatim>\<open>r\<close> and \<^verbatim>\<open>t\<close>.\<close>

record 'n aircraftTrace =
  icao :: string
  reg_r :: string
  type_t :: string
  desc :: string
  ownOp :: string
  year :: string
  timestamp :: 'n
  trace :: "addr list"

datatype error = ReferenceTraceNull | RangeError

section \<open>data.js: normaliseTimestamps, relativeTimestamps, mergeAllTraces\<close>

text \<open>\<^verbatim>\<open>for(i...) aircraftTrace.trace[i][0] += aircraftTrace.timestamp\<close>, one write per
  index of the array of references.\<close>

fun addToEach :: "'n externals \<Rightarrow> 'n \<Rightarrow> addr list \<Rightarrow> 'n store \<Rightarrow> 'n store" where
  "addToEach X ts [] h = h"
| "addToEach X ts (a # as) h =
     addToEach X ts as (h(a := (h a)\<lparr>offset := numAdd X (offset (h a)) ts\<rparr>))"

definition normaliseTimestamps :: "'n externals \<Rightarrow> 'n aircraftTrace \<Rightarrow> 'n store \<Rightarrow> 'n store" where
  "normaliseTimestamps X aircraftTrace h =
     addToEach X (timestamp aircraftTrace) (trace aircraftTrace) h"

fun subFromEach :: "'n externals \<Rightarrow> 'n \<Rightarrow> addr list \<Rightarrow> 'n store \<Rightarrow> 'n store" where
  "subFromEach X ts [] h = h"
| "subFromEach X ts (a # as) h =
     subFromEach X ts as (h(a := (h a)\<lparr>offset := numSub X (offset (h a)) ts\<rparr>))"

definition relativeTimestamps :: "'n externals \<Rightarrow> 'n aircraftTrace \<Rightarrow> 'n store \<Rightarrow> 'n store" where
  "relativeTimestamps X aircraftTrace h =
     subFromEach X (timestamp aircraftTrace) (trace aircraftTrace) h"

text \<open>
  \<^verbatim>\<open>absoluteTimestampDict\<close>: an object used as a dictionary from the timestamp to a
  reference to the sample. Its keys are strings, the string forms of the Numbers used as
  keys; it is kept as an association list in insertion order.
\<close>

type_synonym dict = "(string \<times> addr) list"

text \<open>\<^verbatim>\<open>let absoluteTimestamp = parseFloat(traceObject[0])\<close>, which reads the Number back
  from its string form, and the property key that \<^verbatim>\<open>absoluteTimestamp\<close> then is.\<close>

definition keyOf :: "'n externals \<Rightarrow> 'n \<Rightarrow> string" where
  "keyOf X x = (let absoluteTimestamp = parseFloatOf X (numString X x)
                in numString X absoluteTimestamp)"

text \<open>The inner loop over one normalised trace: a sample is stored only where its
  timestamp is not yet a key.\<close>

fun insertTrace :: "'n externals \<Rightarrow> 'n store \<Rightarrow> addr list \<Rightarrow> dict \<Rightarrow> dict" where
  "insertTrace X h [] d = d"
| "insertTrace X h (a # as) d =
     (let absoluteTimestamp = keyOf X (offset (h a))
      in insertTrace X h as
           (if absoluteTimestamp \<in> fst ` set d then d else d @ [(absoluteTimestamp, a)]))"

text \<open>The outer loop over the arguments; a null or undefined argument is skipped.\<close>

fun mergeLoop ::
  "'n externals \<Rightarrow> 'n aircraftTrace option list \<Rightarrow> 'n store \<Rightarrow> dict \<Rightarrow> 'n store \<times> dict" where
  "mergeLoop X [] h d = (h, d)"
| "mergeLoop X (None # traces) h d = mergeLoop X traces h d"
| "mergeLoop X (Some tr # traces) h d =
     (let h' = normaliseTimestamps X tr h
      in mergeLoop X traces h' (insertTrace X h' (trace tr) d))"

text \<open>
  \<^verbatim>\<open>Object.keys(absoluteTimestampDict).sort()\<close>: \<^verbatim>\<open>sort\<close> without a comparator orders
  its elements as strings, by code units; the keys are distinct, so the sorted order
  does not depend on the order in which \<^verbatim>\<open>Object.keys\<close> lists them.
\<close>

definition sortedEntries :: "dict \<Rightarrow> dict" where
  "sortedEntries d = sort_key fst d"

text \<open>\<^verbatim>\<open>parseFloat(sortedKeys[0])\<close>: the first key read back as a Number; without a key
  the argument is \<^verbatim>\<open>undefined\<close>, which \<^verbatim>\<open>parseFloat\<close> reads as the string "undefined".\<close>

definition firstKey :: "'n externals \<Rightarrow> dict \<Rightarrow> 'n" where
  "firstKey X sortedKeys =
     parseFloatOf X (case sortedKeys of [] \<Rightarrow> ''undefined'' | e # _ \<Rightarrow> fst e)"

text \<open>The result is the new trace object together with the store after the call.\<close>

fun mergeAllTraces ::
  "'n externals \<Rightarrow> 'n aircraftTrace option list \<Rightarrow> 'n store
     \<Rightarrow> error + ('n aircraftTrace \<times> 'n store)" where
  "mergeAllTraces X [] h = Inl ReferenceTraceNull"
| "mergeAllTraces X (None # traces) h = Inl ReferenceTraceNull"
| "mergeAllTraces X (Some referenceTrace # traces) h =
     (let (h', d) = mergeLoop X (Some referenceTrace # traces) h [];
          sortedKeys = sortedEntries d;
          resultingTrace = \<lparr>icao = icao referenceTrace, reg_r = reg_r referenceTrace,
            type_t = type_t referenceTrace, desc = desc referenceTrace,
            ownOp = ownOp referenceTrace, year = year referenceTrace,
            timestamp = firstKey X sortedKeys, trace = map snd sortedKeys\<rparr>
      in Inr (resultingTrace, relativeTimestamps X resultingTrace h'))"

section \<open>data.js: flightPointsFromTrace and flightPointFromBinary\<close>

text \<open>
  A field of a FlightPoint is \<^verbatim>\<open>null\<close>, \<^verbatim>\<open>NaN\<close> or a finite Number. Latitude, longitude,
  ground speed and track are fractional (\<open>real jsval\<close>); altitude and vertical rate are
  whole (\<open>int jsval\<close>), as \<^verbatim>\<open>parseInt\<close> leaves them.
\<close>

datatype 'a jsval = JNull | JNaN | JNum 'a

text \<open>\<^verbatim>\<open>parseFloat(x)\<close> where x is a Number, or is null or undefined: the argument is
  first turned into a string, and neither "null" nor "undefined" starts with a numeral.\<close>

fun parseFloat :: "real option \<Rightarrow> real jsval" where
  "parseFloat None = JNaN"
| "parseFloat (Some x) = JNum x"

text \<open>A raw field copied as it is: null stays null.\<close>

fun rawField :: "'a option \<Rightarrow> 'a jsval" where
  "rawField None = JNull"
| "rawField (Some x) = JNum x"

text \<open>\<^verbatim>\<open>x || null\<close> on a string or null: the empty string is falsy.\<close>

fun orNull :: "string option \<Rightarrow> string option" where
  "orNull None = None"
| "orNull (Some s) = (if s = [] then None else Some s)"

text \<open>The FlightPoint object of data.js. The display string \<^verbatim>\<open>time\<close>
  (\<^verbatim>\<open>com.formatTime\<close>, a locale rendering) is left out of the object; that
  \<^verbatim>\<open>com.formatTime\<close> may throw is kept in \<open>flightPointsFromTrace\<close> below.\<close>

record 'n flightPoint =
  p_timestamp :: 'n
  p_timestampMillis :: 'n
  p_latitude :: "real jsval"
  p_longitude :: "real jsval"
  p_altitude :: "int jsval"
  p_groundSpeed :: "real jsval"
  p_rotation :: "real jsval"
  p_verticalRate :: "int jsval"
  p_dataSource :: "string option"
  p_position :: "real option \<times> real option"
  p_isAscending :: bool
  p_isDescending :: bool
  p_isOnGround :: bool

text \<open>\<^verbatim>\<open>(x !== null) ? (x === "ground") ? 0 : parseInt(x) : null\<close>\<close>

fun altitudeOf :: "altitude option \<Rightarrow> int jsval" where
  "altitudeOf None = JNull"
| "altitudeOf (Some Ground) = JNum 0"
| "altitudeOf (Some (Feet n)) = JNum n"

text \<open>\<^verbatim>\<open>(rate !== null) ? rate > 0 : false\<close> and its mirror.\<close>

fun isPositive :: "int jsval \<Rightarrow> bool" where
  "isPositive (JNum n) = (n > 0)"
| "isPositive _ = False"

fun isNegative :: "int jsval \<Rightarrow> bool" where
  "isNegative (JNum n) = (n < 0)"
| "isNegative _ = False"

text \<open>The object literal in the loop of flightPointsFromTrace, for one sample.\<close>

definition pointFromTraceObject :: "'n externals \<Rightarrow> 'n \<Rightarrow> 'n traceObject \<Rightarrow> 'n flightPoint" where
  "pointFromTraceObject X traceTimestamp traceObject =
     (let absoluteTimestamp = numAdd X (offset traceObject) traceTimestamp;
          altitude = altitudeOf (alt traceObject);
          altitudeRate = rawField (rate traceObject);
          dataSource = orNull (source traceObject)
      in \<lparr>p_timestamp = absoluteTimestamp,
          p_timestampMillis = numTimes1000 X absoluteTimestamp,
          p_latitude = parseFloat (lat traceObject),
          p_longitude = parseFloat (lon traceObject),
          p_altitude = altitude,
          p_groundSpeed = rawField (gs traceObject),
          p_rotation = rawField (track traceObject),
          p_verticalRate = altitudeRate,
          p_dataSource = dataSource,
          p_position = (lat traceObject, lon traceObject),
          p_isAscending = isPositive altitudeRate,
          p_isDescending = isNegative altitudeRate,
          p_isOnGround = (alt traceObject = Some Ground)\<rparr>)"


text \<open>An entry of the \<^verbatim>\<open>aircraft\<close> array of a decoded binary update; a key that the
  entry does not have (\<^verbatim>\<open>undefined\<close>) is \<open>None\<close>.\<close>

record binaryAircraftObject =
  hex :: string
  b_r :: string
  b_t :: string
  flight :: string
  b_lat :: "real option"
  b_lon :: "real option"
  alt_baro :: "altitude option"
  baro_rate :: "int option"
  b_gs :: "real option"
  b_track :: "real option"
  b_type :: "string option"

text \<open>flightPointFromBinary: the object it returns. The field \<^verbatim>\<open>time\<close> is left out, as
  above, and with it the call \<^verbatim>\<open>com.formatTime(updateAt)\<close> that computes it.\<close>

definition flightPointFromBinary ::
  "'n externals \<Rightarrow> 'n \<Rightarrow> binaryAircraftObject \<Rightarrow> 'n flightPoint" where
  "flightPointFromBinary X updateAt binaryAircraftObject =
     (let altitude = altitudeOf (alt_baro binaryAircraftObject);
          altitudeRate = rawField (baro_rate binaryAircraftObject);
          groundSpeed = (case b_gs binaryAircraftObject of None \<Rightarrow> JNull | Some x \<Rightarrow> parseFloat (Some x));
          rotation = (case b_track binaryAircraftObject of None \<Rightarrow> JNull | Some x \<Rightarrow> parseFloat (Some x));
          dataSource = orNull (b_type binaryAircraftObject)
      in \<lparr>p_timestamp = updateAt,
          p_timestampMillis = numTimes1000 X updateAt,
          p_latitude = parseFloat (b_lat binaryAircraftObject),
          p_longitude = parseFloat (b_lon binaryAircraftObject),
          p_altitude = altitude,
          p_groundSpeed = groundSpeed,
          p_rotation = rotation,
          p_verticalRate = altitudeRate,
          p_dataSource = dataSource,
          p_position = (b_lat binaryAircraftObject, b_lon binaryAircraftObject),
          p_isAscending = isPositive altitudeRate,
          p_isDescending = isNegative altitudeRate,
          p_isOnGround = (alt_baro binaryAircraftObject = Some Ground)\<rparr>)"

section \<open>data.js: decodeBinaryUpdate\<close>







section \<open>schema.js and database.js\<close>

text \<open>An Aircraft model; \<open>lastBinaryUpdate\<close> is in whole seconds, \<open>None\<close> while it is
  undefined or null.\<close>

record aircraftModel =
  a_icao :: string
  a_flightName :: "string option"
  isSetup :: bool
  isActiveNow :: bool
  lastBinaryUpdate :: "int option"

text \<open>A row of the FlightPoint table. \<open>AircraftIcao\<close> and \<open>flightPointHash\<close> are unset
  on a model that \<^verbatim>\<open>newFlightPointModel\<close> has just built.\<close>

record 'n flightPointModel =
  AircraftIcao :: "string option"
  flightPointHash :: "string option"
  m_timestamp :: 'n
  m_date :: string
  m_latitude :: "real jsval"
  m_longitude :: "real jsval"
  m_altitude :: "int jsval"
  m_groundSpeed :: "real jsval"
  m_rotation :: "real jsval"
  m_verticalRate :: "int jsval"
  m_dataSource :: "string option"
  synchronised :: bool
  m_isOnGround :: bool
  m_isAscending :: bool
  m_isDescending :: bool

definition newFlightPointModel :: "'n externals \<Rightarrow> 'n flightPoint \<Rightarrow> 'n flightPointModel" where
  "newFlightPointModel X flightPoint =
     \<lparr>AircraftIcao = None, flightPointHash = None,
      m_timestamp = p_timestamp flightPoint,
      m_date = dateToUtc X (numTimes1000 X (p_timestamp flightPoint)),
      m_latitude = p_latitude flightPoint, m_longitude = p_longitude flightPoint,
      m_altitude = p_altitude flightPoint, m_groundSpeed = p_groundSpeed flightPoint,
      m_rotation = p_rotation flightPoint, m_verticalRate = p_verticalRate flightPoint,
      m_dataSource = p_dataSource flightPoint, synchronised = False,
      m_isOnGround = p_isOnGround flightPoint, m_isAscending = p_isAscending flightPoint,
      m_isDescending = p_isDescending flightPoint\<rparr>"

definition buildFlightPointsModels ::
  "'n externals \<Rightarrow> 'n flightPoint list \<Rightarrow> 'n flightPointModel list" where
  "buildFlightPointsModels X flightPoints = map (newFlightPointModel X) flightPoints"

definition hexDigit :: "nat \<Rightarrow> char" where
  "hexDigit d = (if d < 10 then char_of (48 + d) else char_of (87 + d))"

definition hexByte :: "nat \<Rightarrow> string" where
  "hexByte b = [hexDigit (b div 16 mod 16), hexDigit (b mod 16)]"

definition hexString :: "bytes \<Rightarrow> string" where
  "hexString bs = concat (map hexByte bs)"

text \<open>\<^verbatim>\<open>x.toString()\<close> behind the guard \<^verbatim>\<open>x !== null\<close>: \<open>None\<close> is the guard failing.\<close>

fun unlessNull :: "('a \<Rightarrow> string) \<Rightarrow> 'a jsval \<Rightarrow> string option" where
  "unlessNull f JNull = None"
| "unlessNull f JNaN = Some ''NaN''"
| "unlessNull f (JNum x) = Some (f x)"

definition positionForHash :: "'n externals \<Rightarrow> 'n flightPointModel \<Rightarrow> string" where
  "positionForHash X flightPoint =
     (case (unlessNull (numberToString X) (m_latitude flightPoint),
            unlessNull (numberToString X) (m_longitude flightPoint)) of
        (Some la, Some lo) \<Rightarrow> la @ lo
      | _ \<Rightarrow> ''0'')"

definition altitudeForHash :: "'n externals \<Rightarrow> 'n flightPointModel \<Rightarrow> string" where
  "altitudeForHash X flightPoint =
     (case unlessNull (integerToString X) (m_altitude flightPoint) of
        Some s \<Rightarrow> s
      | None \<Rightarrow> ''na'')"

definition hashInput :: "'n externals \<Rightarrow> aircraftModel \<Rightarrow> 'n flightPointModel \<Rightarrow> string" where
  "hashInput X aircraft flightPoint =
     a_icao aircraft @ numString X (m_timestamp flightPoint)
       @ positionForHash X flightPoint @ altitudeForHash X flightPoint"

text \<open>The body of the loop of saveToAircraft, for one model.\<close>

definition assignHash ::
  "'n externals \<Rightarrow> aircraftModel \<Rightarrow> 'n flightPointModel \<Rightarrow> 'n flightPointModel" where
  "assignHash X aircraft flightPoint =
     flightPoint\<lparr>AircraftIcao := Some (a_icao aircraft),
       flightPointHash := Some (hexString (blake2b X 16 (hashInput X aircraft flightPoint)))\<rparr>"

text \<open>The table is the list of its rows. \<^verbatim>\<open>save()\<close> inserts the row; the column
  \<^verbatim>\<open>flightPointHash\<close> is unique, so inserting a hash the table has is rejected, and
  \<^verbatim>\<open>Promise.allSettled\<close> swallows the rejection.\<close>

type_synonym 'n table = "'n flightPointModel list"

definition save :: "'n table \<Rightarrow> 'n flightPointModel \<Rightarrow> 'n table" where
  "save db row = (if flightPointHash row \<in> flightPointHash ` set db then db else db @ [row])"

definition saveToAircraft ::
  "'n externals \<Rightarrow> aircraftModel \<Rightarrow> 'n flightPointModel list \<Rightarrow> 'n table
     \<Rightarrow> 'n flightPointModel list \<times> 'n table" where
  "saveToAircraft X aircraft flightPoints db =
     (let hashed = map (assignHash X aircraft) flightPoints
      in (hashed, foldl save db hashed))"

record flightPointReceipt =
  r_AircraftIcao :: string
  r_flightPointHash :: string
  r_synchronised :: bool

text \<open>One \<^verbatim>\<open>FlightPoint.update({synchronised: true}, {where: ...})\<close>.\<close>

definition updateWhere :: "flightPointReceipt \<Rightarrow> 'n table \<Rightarrow> 'n table" where
  "updateWhere flightPointReceipt db =
     map (\<lambda>row. if AircraftIcao row = Some (r_AircraftIcao flightPointReceipt)
                    \<and> flightPointHash row = Some (r_flightPointHash flightPointReceipt)
                 then row\<lparr>synchronised := True\<rparr> else row) db"

text \<open>The updates are issued in the order of the array; the function returns the array
  it was given, and nothing is thrown (\<^verbatim>\<open>Promise.allSettled\<close>).\<close>

definition updateFlightPointReceipts ::
  "flightPointReceipt list \<Rightarrow> 'n table \<Rightarrow> flightPointReceipt list \<times> 'n table" where
  "updateFlightPointReceipts flightPointReceiptsArray db =
     (flightPointReceiptsArray, foldl (\<lambda>db' receipt. updateWhere receipt db') db flightPointReceiptsArray)"

section \<open>tracker.js: the table of tracked aircraft\<close>

record 'n trackedAircraft =
  aircraft :: "string \<rightharpoonup> aircraftModel"
  savedUpdates :: "string \<rightharpoonup> 'n flightPoint list"
  missedUpdates :: "string \<rightharpoonup> int"

definition add :: "'n trackedAircraft \<Rightarrow> aircraftModel \<Rightarrow> 'n trackedAircraft" where
  "add this aircraftModel =
     (if a_icao aircraftModel \<notin> dom (aircraft this)
      then this\<lparr>aircraft := (aircraft this)(a_icao aircraftModel \<mapsto> aircraftModel),
                savedUpdates := (savedUpdates this)(a_icao aircraftModel \<mapsto> [])\<rparr>
      else this)"

definition remove :: "'n trackedAircraft \<Rightarrow> aircraftModel \<Rightarrow> 'n trackedAircraft" where
  "remove this aircraftModel =
     this\<lparr>aircraft := (aircraft this)(a_icao aircraftModel := None),
          missedUpdates := (missedUpdates this)(a_icao aircraftModel := None),
          savedUpdates := (savedUpdates this)(a_icao aircraftModel := None)\<rparr>"


text \<open>\<^verbatim>\<open>n >= x\<close> where x is a configuration value: a name that conf.js does not export
  reads as \<^verbatim>\<open>undefined\<close> (\<open>None\<close>), which compares as NaN, and every comparison with NaN
  is false.\<close>

fun greaterEqual :: "int \<Rightarrow> int option \<Rightarrow> bool" where
  "greaterEqual n None = False"
| "greaterEqual n (Some x) = (n \<ge> x)"

text \<open>\<^verbatim>\<open>missingUpdate\<close>, with the value read from
  \<^verbatim>\<open>conf.NUM_MISSED_UPDATES_AIRCRAFT_LANDED\<close> as its first argument. The tracker has no
  call of this function.\<close>

definition missingUpdate ::
  "int option \<Rightarrow> 'n trackedAircraft \<Rightarrow> aircraftModel \<Rightarrow> 'n trackedAircraft" where
  "missingUpdate threshold this aircraftModel =
     (let counter = (case missedUpdates this (a_icao aircraftModel) of None \<Rightarrow> 0 | Some n \<Rightarrow> n) + 1;
          this' = this\<lparr>missedUpdates := (missedUpdates this)(a_icao aircraftModel \<mapsto> counter)\<rparr>
      in if greaterEqual counter threshold then remove this' aircraftModel else this')"

text \<open>conf.js defines and exports \<^verbatim>\<open>AIRCRAFT_TIMEOUT\<close> (60 seconds) and others, but no
  \<^verbatim>\<open>NUM_MISSED_UPDATES_AIRCRAFT_LANDED\<close>: that property reads as undefined.\<close>

definition NUM_MISSED_UPDATES_AIRCRAFT_LANDED :: "int option" where
  "NUM_MISSED_UPDATES_AIRCRAFT_LANDED = None"


section \<open>tracker.js: an aircraft that a binary update does not contain\<close>






section \<open>The flight segmenter\<close>

text \<open>
  Modelled from the spec: the FlightSegmenter. The flight parser is not among the
  sources (conf.js keeps only its thresholds, \<^verbatim>\<open>NUM_SECONDS_FLIGHT_TIMEOUT\<close> and
  \<^verbatim>\<open>NUM_HOURS_BETWEEN_SEGMENTS_CONSIDER_NEW_FLIGHT\<close>); the definitions below follow
  the segmentation rule of the specification, evaluated left to right over consecutive
  points. The specification leaves open how the thresholds combine, so the segmenter
  takes the test for a boundary between two consecutive points as its policy;
  \<open>boundaryBetween\<close> is the policy that the rules describe.
\<close>

text \<open>Modelled from the spec: the configured thresholds, in seconds: the flight timeout
  and the larger gap that is too long for one flight.\<close>

record 'n segmenterConf =
  flightTimeout :: 'n
  newFlightGap :: 'n

text \<open>Modelled from the spec: the three kinds of boundary, and the PartialFlight of the
  data model.\<close>

datatype boundary = GroundContact | TimeoutBoundary | HardSegment

record 'n partialFlight =
  points :: "'n flightPoint list"
  startedWithTakeoff :: bool
  endedWithLanding :: bool
  incompletePast :: bool
  incompleteFuture :: bool
  isCompleteFlight :: bool

text \<open>Modelled from the spec: the gap between two consecutive points exceeds a
  threshold.\<close>

definition gapExceeds :: "'n externals \<Rightarrow> 'n \<Rightarrow> 'n flightPoint \<Rightarrow> 'n flightPoint \<Rightarrow> bool" where
  "gapExceeds X limit p q = numLess X limit (numSub X (p_timestamp q) (p_timestamp p))"

text \<open>Modelled from the spec: the boundary, if any, between two consecutive points. A
  hard segment boundary is forced regardless of ground evidence; a timeout boundary
  needs no ground evidence on either side; a ground-contact boundary is ground contact
  followed by airborne contact.\<close>

definition boundaryBetween ::
  "'n externals \<Rightarrow> 'n segmenterConf \<Rightarrow> 'n flightPoint \<Rightarrow> 'n flightPoint \<Rightarrow> boundary option" where
  "boundaryBetween X c p q =
     (if gapExceeds X (newFlightGap c) p q then Some HardSegment
      else if gapExceeds X (flightTimeout c) p q \<and> \<not> p_isOnGround p \<and> \<not> p_isOnGround q
        then Some TimeoutBoundary
      else if p_isOnGround p \<and> \<not> p_isOnGround q then Some GroundContact
      else None)"

text \<open>Modelled from the spec: the maximal runs between boundaries, each with the
  boundary that closes it (none after the last point of the sequence).\<close>

fun splitRuns ::
  "('n flightPoint \<Rightarrow> 'n flightPoint \<Rightarrow> boundary option) \<Rightarrow> 'n flightPoint list
     \<Rightarrow> ('n flightPoint list \<times> boundary option) list" where
  "splitRuns policy [] = []"
| "splitRuns policy [p] = [([p], None)]"
| "splitRuns policy (p # q # rest) =
     (case policy p q of
        Some b \<Rightarrow> ([p], Some b) # splitRuns policy (q # rest)
      | None \<Rightarrow>
          (case splitRuns policy (q # rest) of
             [] \<Rightarrow> [([p], None)]
           | (run, b) # runs \<Rightarrow> (p # run, b) # runs))"

text \<open>Modelled from the spec: the flags of one partial from the boundary that opens it
  and the boundary that closes it; at the ends of the whole sequence the first or last
  point decides.\<close>

definition mkPartial ::
  "boundary option \<Rightarrow> 'n flightPoint list \<Rightarrow> boundary option \<Rightarrow> 'n partialFlight" where
  "mkPartial openedBy run closedBy =
     (let takeoff = (case openedBy of None \<Rightarrow> (case run of [] \<Rightarrow> False | p # _ \<Rightarrow> p_isOnGround p)
                     | Some b \<Rightarrow> b = GroundContact);
          landing = (case closedBy of None \<Rightarrow> (case rev run of [] \<Rightarrow> False | p # _ \<Rightarrow> p_isOnGround p)
                     | Some b \<Rightarrow> b = GroundContact);
          past = (\<not> takeoff);
          future = (\<not> landing)
      in \<lparr>points = run, startedWithTakeoff = takeoff, endedWithLanding = landing,
          incompletePast = past, incompleteFuture = future,
          isCompleteFlight = (takeoff \<and> landing \<and> \<not> past \<and> \<not> future)\<rparr>)"

text \<open>Modelled from the spec: the partials in order, each opened by the boundary that
  closed the one before it, and the segmenter as a whole.\<close>

fun annotate ::
  "boundary option \<Rightarrow> ('n flightPoint list \<times> boundary option) list \<Rightarrow> 'n partialFlight list" where
  "annotate openedBy [] = []"
| "annotate openedBy ((run, closedBy) # runs) = mkPartial openedBy run closedBy # annotate closedBy runs"

definition segment ::
  "('n flightPoint \<Rightarrow> 'n flightPoint \<Rightarrow> boundary option) \<Rightarrow> 'n flightPoint list
     \<Rightarrow> 'n partialFlight list" where
  "segment policy flightPoints = annotate None (splitRuns policy flightPoints)"

section \<open>Notions used to state the properties\<close>

text \<open>A receipt matches a row when both the aircraft and the hash agree; a row is
  acknowledged by an array of receipts when some receipt of the array matches it.\<close>

definition receiptMatches :: "flightPointReceipt \<Rightarrow> 'n flightPointModel \<Rightarrow> bool" where
  "receiptMatches receipt row =
     (AircraftIcao row = Some (r_AircraftIcao receipt)
      \<and> flightPointHash row = Some (r_flightPointHash receipt))"

definition acknowledged :: "flightPointReceipt list \<Rightarrow> 'n flightPointModel \<Rightarrow> bool" where
  "acknowledged receipts row = list_ex (\<lambda>receipt. receiptMatches receipt row) receipts"




text \<open>The hash input as the specification composes it, from the aircraft's ICAO, the
  timestamp, the position and the altitude.\<close>

fun renderNumber :: "('a \<Rightarrow> string) \<Rightarrow> 'a jsval \<Rightarrow> string" where
  "renderNumber f (JNum x) = f x"
| "renderNumber f JNaN = ''NaN''"
| "renderNumber f JNull = ''null''"

definition claimedHashInput ::
  "'n externals \<Rightarrow> string \<Rightarrow> 'n \<Rightarrow> real jsval \<Rightarrow> real jsval \<Rightarrow> int jsval \<Rightarrow> string" where
  "claimedHashInput X icao' ts la lo al =
     icao' @ numString X ts
       @ (if la = JNull \<or> lo = JNull then ''0''
          else renderNumber (numberToString X) la @ renderNumber (numberToString X) lo)
       @ (if al = JNull then ''na'' else renderNumber (integerToString X) al)"

definition claimedHash :: "'n externals \<Rightarrow> string \<Rightarrow> 'n flightPoint \<Rightarrow> string" where
  "claimedHash X icao' p =
     hexString (blake2b X 16
       (claimedHashInput X icao' (p_timestamp p) (p_latitude p) (p_longitude p) (p_altitude p)))"

text \<open>The missed-update counter of an aircraft, as missingUpdate reads it
  (\<^verbatim>\<open>this.missedUpdates[icao] || 0\<close>).\<close>

definition missedCounter :: "'n trackedAircraft \<Rightarrow> string \<Rightarrow> int" where
  "missedCounter this icao' = (case missedUpdates this icao' of None \<Rightarrow> 0 | Some n \<Rightarrow> n)"

section \<open>Notions used to state the properties of the merge\<close>














text \<open>The absolute timestamps a trace decodes to: each sample's offset added back to the
  base timestamp, as flightPointsFromTrace does.\<close>

definition decodedTimestamps :: "'n externals \<Rightarrow> 'n aircraftTrace \<Rightarrow> 'n store \<Rightarrow> 'n list" where
  "decodedTimestamps X res h = map (\<lambda>a. numAdd X (offset (h a)) (timestamp res)) (trace res)"

text \<open>The absolute timestamps that the result of a merge decodes to (none when the call
  fails).\<close>

definition mergedTimestamps ::
  "'n externals \<Rightarrow> 'n aircraftTrace option list \<Rightarrow> 'n store \<Rightarrow> 'n list" where
  "mergedTimestamps X traces h =
     (case mergeAllTraces X traces h of
        Inl err \<Rightarrow> []
      | Inr (res, h'') \<Rightarrow> decodedTimestamps X res h'')"










section \<open>An instance for examples: whole Numbers\<close>

text \<open>
  The examples use Numbers that are whole and small (below \<open>2^53\<close> in magnitude, and with
  them their sums, differences and products): on these the engine's arithmetic is
  exact, \<^verbatim>\<open>toString\<close> gives the decimal numeral and \<^verbatim>\<open>parseFloat\<close> reads it back. \<open>NaN\<close>
  is what \<^verbatim>\<open>parseFloat\<close> gives for a string that is not a numeral, such as "undefined".
  \<^verbatim>\<open>com.formatTime\<close> throws for a time beyond 8.64e15 milliseconds from the epoch. The
  digest and the strings of coordinates and days are stand-ins.
\<close>

datatype jsnum = Num int | NaN

fun jadd :: "jsnum \<Rightarrow> jsnum \<Rightarrow> jsnum" where
  "jadd (Num a) (Num b) = Num (a + b)"
| "jadd _ _ = NaN"

fun jsub :: "jsnum \<Rightarrow> jsnum \<Rightarrow> jsnum" where
  "jsub (Num a) (Num b) = Num (a - b)"
| "jsub _ _ = NaN"

fun jmul :: "jsnum \<Rightarrow> int \<Rightarrow> jsnum" where
  "jmul (Num a) b = Num (a * b)"
| "jmul NaN b = NaN"

fun jless :: "jsnum \<Rightarrow> jsnum \<Rightarrow> bool" where
  "jless (Num a) (Num b) = (a < b)"
| "jless _ _ = False"

definition digit_char :: "nat \<Rightarrow> char" where
  "digit_char d = char_of (48 + d)"

function showNat :: "nat \<Rightarrow> string" where
  "showNat n = (if n < 10 then [digit_char n] else showNat (n div 10) @ [digit_char (n mod 10)])"
  by pat_completeness auto
termination
  by (relation "measure id") auto

declare showNat.simps [simp del]

fun toString :: "jsnum \<Rightarrow> string" where
  "toString (Num n) = (if n < 0 then CHR ''-'' # showNat (nat (- n)) else showNat (nat n))"
| "toString NaN = ''NaN''"

definition digitValue :: "char \<Rightarrow> nat option" where
  "digitValue c =
     (let n = (of_char c :: nat) in if 48 \<le> n \<and> n \<le> 57 then Some (n - 48) else None)"

fun readDigits :: "nat \<Rightarrow> string \<Rightarrow> nat option" where
  "readDigits acc [] = Some acc"
| "readDigits acc (c # cs) =
     (case digitValue c of None \<Rightarrow> None | Some d \<Rightarrow> readDigits (10 * acc + d) cs)"

fun readNumber :: "string \<Rightarrow> jsnum" where
  "readNumber [] = NaN"
| "readNumber (c # cs) =
     (if c = CHR ''-'' then
        (case (cs, readDigits 0 cs) of
           (_ # _, Some n) \<Rightarrow> Num (- int n)
         | _ \<Rightarrow> NaN)
      else (case readDigits 0 (c # cs) of Some n \<Rightarrow> Num (int n) | None \<Rightarrow> NaN))"

fun validTime :: "jsnum \<Rightarrow> string option" where
  "validTime (Num n) = (if \<bar>n * 1000\<bar> \<le> 8640000000000000 then Some ''time'' else None)"
| "validTime NaN = None"

definition exampleExternals :: "jsnum externals" where
  "exampleExternals = \<lparr>numAdd = jadd, numSub = jsub, numTimes1000 = (\<lambda>x. jmul x 1000),
      numLess = jless, numString = toString, parseFloatOf = readNumber,
      formatTime = validTime, dateToUtc = (\<lambda>ts. ''2022-03-28''),
      numberToString = (\<lambda>x. ''x''), integerToString = (\<lambda>n. toString (Num n)),
      blake2b = (\<lambda>n msg. take n (map of_char msg @ replicate n 0))\<rparr>"

section \<open>Example values\<close>

definition exampleRow :: "jsnum flightPointModel" where
  "exampleRow = \<lparr>AircraftIcao = Some ''7c4ee8'', flightPointHash = Some ''aa'',
      m_timestamp = Num 1648433758, m_date = ''2022-03-28'',
      m_latitude = JNaN, m_longitude = JNaN, m_altitude = JNum 2450, m_groundSpeed = JNull,
      m_rotation = JNull, m_verticalRate = JNull, m_dataSource = None, synchronised = False,
      m_isOnGround = False, m_isAscending = False, m_isDescending = False\<rparr>"

definition examplePoint :: "jsnum flightPoint" where
  "examplePoint = \<lparr>p_timestamp = Num 1648433758, p_timestampMillis = Num 1648433758000,
      p_latitude = JNull, p_longitude = JNaN, p_altitude = JNum 2450, p_groundSpeed = JNull,
      p_rotation = JNull, p_verticalRate = JNum (- 288), p_dataSource = Some ''adsb_icao'',
      p_position = (None, None), p_isAscending = False, p_isDescending = True,
      p_isOnGround = False\<rparr>"

definition exampleAircraft :: aircraftModel where
  "exampleAircraft = \<lparr>a_icao = ''7c4ee8'', a_flightName = Some ''POL35'', isSetup = True,
      isActiveNow = True, lastBinaryUpdate = Some 1648433758\<rparr>"


text \<open>A store in which the sample at address a has offset a mod 10, and a trace with a
  given base timestamp over given samples.\<close>

definition exampleStore :: "jsnum store" where
  "exampleStore = (\<lambda>a. \<lparr>offset = Num (int (a mod 10)), lat = None, lon = None,
      alt = Some (Feet 2450), gs = None, track = None, rate = None, source = None\<rparr>)"

definition exampleTrace :: "int \<Rightarrow> addr list \<Rightarrow> jsnum aircraftTrace" where
  "exampleTrace base samples = \<lparr>icao = ''7c4ee8'', reg_r = ''VH-PVE'', type_t = ''A139'',
      desc = ''AGUSTA AW-139'', ownOp = ''POLICE'', year = ''2019'',
      timestamp = Num base, trace = samples\<rparr>"


section \<open>Reference-trace check\<close>

text \<open>
  C7. When the first argument of mergeAllTraces is null or undefined (or there is no
  argument at all) the call fails with the error, which is the call's result; when the
  first argument is a trace the call returns a merged trace, whatever the other
  arguments are, null or not.
\<close>

theorem mergeAllTraces_reference_check:
  "mergeAllTraces X (None # traces) h = Inl ReferenceTraceNull
   \<and> mergeAllTraces X [] h = Inl ReferenceTraceNull
   \<and> (\<exists>res. mergeAllTraces X (Some referenceTrace # traces) h = Inr res)"
  by (simp add: Let_def split: prod.split)

section \<open>Receipts\<close>

lemma foldl_updateWhere:
  "foldl (\<lambda>db' receipt. updateWhere receipt db') db rs =
     map (\<lambda>row. if acknowledged rs row then row\<lparr>synchronised := True\<rparr> else row) db"
proof (induction rs rule: rev_induct)
  case Nil
  then show ?case by (simp add: acknowledged_def)
next
  case (snoc x xs)
  then show ?case
    by (auto simp add: updateWhere_def acknowledged_def receiptMatches_def)
qed

lemma acknowledged_sync [simp]:
  "acknowledged rs (row\<lparr>synchronised := b\<rparr>) = acknowledged rs row"
  by (simp add: acknowledged_def receiptMatches_def)

text \<open>
  C3. updateFlightPointReceipts returns its array and leaves a table in which exactly
  the rows matched by some receipt (same AircraftIcao and same flightPointHash) have
  synchronised set, every other row and every other column being as before; receipts
  that match no row leave the table as it was; applying the same array again changes
  nothing more. The function has no failing outcome.
\<close>

theorem updateFlightPointReceipts_acknowledges:
  "snd (updateFlightPointReceipts rs db) =
      map (\<lambda>row. if acknowledged rs row then row\<lparr>synchronised := True\<rparr> else row) db
   \<and> fst (updateFlightPointReceipts rs db) = rs
   \<and> ((\<forall>row \<in> set db. \<not> acknowledged rs row) \<longrightarrow> snd (updateFlightPointReceipts rs db) = db)
   \<and> snd (updateFlightPointReceipts rs (snd (updateFlightPointReceipts rs db)))
        = snd (updateFlightPointReceipts rs db)"
  unfolding updateFlightPointReceipts_def snd_conv fst_conv foldl_updateWhere
  by (auto simp add: map_idI)

theorem updateFlightPointReceipts_acknowledges_witness:
  "snd (updateFlightPointReceipts
      [\<lparr>r_AircraftIcao = ''7c4ee8'', r_flightPointHash = ''bb'', r_synchronised = True\<rparr>]
      [exampleRow]) = [exampleRow]
   \<and> snd (updateFlightPointReceipts
      [\<lparr>r_AircraftIcao = ''7c4ee8'', r_flightPointHash = ''aa'', r_synchronised = True\<rparr>]
      [exampleRow]) = [exampleRow\<lparr>synchronised := True\<rparr>]"
  using updateFlightPointReceipts_acknowledges
    [of "[\<lparr>r_AircraftIcao = ''7c4ee8'', r_flightPointHash = ''bb'', r_synchronised = True\<rparr>]"
        "[exampleRow]"]
    updateFlightPointReceipts_acknowledges
    [of "[\<lparr>r_AircraftIcao = ''7c4ee8'', r_flightPointHash = ''aa'', r_synchronised = True\<rparr>]"
        "[exampleRow]"]
  by (simp add: acknowledged_def receiptMatches_def exampleRow_def)

section \<open>Decoding a binary update\<close>











section \<open>Normalising a sample\<close>

text \<open>
  C5. A sample or a binary record without altitude, vertical rate, ground speed or track
  yields null in that field, and the ground sentinel yields altitude 0 with isOnGround;
  but a sample or record without latitude or without longitude yields NaN there, which
  is neither null nor a finite number.
\<close>

theorem normalizer_absent_fields:
  "p_altitude (pointFromTraceObject X ts (obj\<lparr>alt := None\<rparr>)) = JNull
   \<and> p_verticalRate (pointFromTraceObject X ts (obj\<lparr>rate := None\<rparr>)) = JNull
   \<and> p_groundSpeed (pointFromTraceObject X ts (obj\<lparr>gs := None\<rparr>)) = JNull
   \<and> p_rotation (pointFromTraceObject X ts (obj\<lparr>track := None\<rparr>)) = JNull
   \<and> p_altitude (pointFromTraceObject X ts (obj\<lparr>alt := Some Ground\<rparr>)) = JNum 0
   \<and> p_isOnGround (pointFromTraceObject X ts (obj\<lparr>alt := Some Ground\<rparr>))
   \<and> p_latitude (pointFromTraceObject X ts (obj\<lparr>lat := None\<rparr>)) = JNaN
   \<and> p_longitude (pointFromTraceObject X ts (obj\<lparr>lon := None\<rparr>)) = JNaN
   \<and> p_altitude (flightPointFromBinary X updateAt (b\<lparr>alt_baro := None\<rparr>)) = JNull
   \<and> p_verticalRate (flightPointFromBinary X updateAt (b\<lparr>baro_rate := None\<rparr>)) = JNull
   \<and> p_groundSpeed (flightPointFromBinary X updateAt (b\<lparr>b_gs := None\<rparr>)) = JNull
   \<and> p_rotation (flightPointFromBinary X updateAt (b\<lparr>b_track := None\<rparr>)) = JNull
   \<and> p_altitude (flightPointFromBinary X updateAt (b\<lparr>alt_baro := Some Ground\<rparr>)) = JNum 0
   \<and> p_isOnGround (flightPointFromBinary X updateAt (b\<lparr>alt_baro := Some Ground\<rparr>))
   \<and> p_latitude (flightPointFromBinary X updateAt (b\<lparr>b_lat := None\<rparr>)) = JNaN
   \<and> p_longitude (flightPointFromBinary X updateAt (b\<lparr>b_lon := None\<rparr>)) = JNaN"
  by (simp add: pointFromTraceObject_def flightPointFromBinary_def Let_def)

section \<open>The content hash\<close>

lemma length_hexString: "length (hexString bs) = 2 * length bs"
  by (induction bs) (simp_all add: hexString_def hexByte_def)

lemma hashInput_claimed:
  "hashInput X ac (newFlightPointModel X p) =
     claimedHashInput X (a_icao ac) (p_timestamp p) (p_latitude p) (p_longitude p) (p_altitude p)"
  by (cases "p_latitude p"; cases "p_longitude p"; cases "p_altitude p")
     (simp_all add: hashInput_def claimedHashInput_def newFlightPointModel_def
        positionForHash_def altitudeForHash_def)

lemma saved_hashes:
  "map flightPointHash (fst (saveToAircraft X ac (buildFlightPointsModels X ps) db))
     = map (\<lambda>p. Some (claimedHash X (a_icao ac) p)) ps"
  by (simp add: saveToAircraft_def buildFlightPointsModels_def assignHash_def
      hashInput_claimed claimedHash_def Let_def)

text \<open>
  C6. Provided the digest function returns as many bytes as it is asked for, every point
  saved through buildFlightPointsModels and saveToAircraft gets as its hash the 32
  hexadecimal characters of the 16-byte digest of the aircraft's ICAO, the timestamp, the
  position string (latitude then longitude, "0" when either is null) and the altitude
  string ("na" when null), in this order; so two points that agree on aircraft,
  timestamp, latitude, longitude and altitude get the same hash, whatever their other
  fields are.
\<close>

theorem saveToAircraft_content_hash:
  assumes "\<And>n msg. length (blake2b X n msg) = n"
  shows "map flightPointHash (fst (saveToAircraft X ac (buildFlightPointsModels X ps) db))
           = map (\<lambda>p. Some (claimedHash X (a_icao ac) p)) ps
     \<and> length (claimedHash X (a_icao ac) p) = 32
     \<and> (a_icao ac = a_icao ac' \<and> p_timestamp p = p_timestamp p'
          \<and> p_latitude p = p_latitude p' \<and> p_longitude p = p_longitude p'
          \<and> p_altitude p = p_altitude p'
        \<longrightarrow> map flightPointHash (fst (saveToAircraft X ac (buildFlightPointsModels X [p]) db))
            = map flightPointHash (fst (saveToAircraft X ac' (buildFlightPointsModels X [p']) db')))"
  using assms by (simp add: saved_hashes claimedHash_def length_hexString)

theorem saveToAircraft_content_hash_witness:
  "length (claimedHash exampleExternals (a_icao exampleAircraft) examplePoint) = 32
   \<and> map flightPointHash (fst (saveToAircraft exampleExternals exampleAircraft
           (buildFlightPointsModels exampleExternals [examplePoint]) []))
     = map flightPointHash (fst (saveToAircraft exampleExternals exampleAircraft
           (buildFlightPointsModels exampleExternals [examplePoint\<lparr>p_dataSource := None\<rparr>]) [exampleRow]))"
proof -
  have h: "\<And>n msg. length (blake2b exampleExternals n msg) = n"
    by (simp add: exampleExternals_def)
  show ?thesis
    using saveToAircraft_content_hash [of exampleExternals exampleAircraft "[]" "[]" examplePoint
        exampleAircraft "examplePoint\<lparr>p_dataSource := None\<rparr>" "[exampleRow]", OF h]
    by simp
qed

section \<open>An aircraft missing from a binary update\<close>

text \<open>Were missingUpdate called, it would count: with the threshold that conf.js gives,
  which is none, the counter goes up by one and the aircraft is never removed.\<close>

lemma missingUpdate_undefined:
  "missingUpdate NUM_MISSED_UPDATES_AIRCRAFT_LANDED this m =
     this\<lparr>missedUpdates := (missedUpdates this)(a_icao m \<mapsto> missedCounter this (a_icao m) + 1)\<rparr>"
  by (simp add: missingUpdate_def NUM_MISSED_UPDATES_AIRCRAFT_LANDED_def missedCounter_def Let_def)






section \<open>Segmentation coverage\<close>

lemma splitRuns_concat: "concat (map fst (splitRuns policy ps)) = ps"
proof (induction policy ps rule: splitRuns.induct)
  case (3 policy p q rest)
  show ?case
  proof (cases "policy p q")
    case None
    with 3 show ?thesis by (cases "splitRuns policy (q # rest)") auto
  next
    case (Some b)
    with 3 show ?thesis by simp
  qed
qed simp_all

lemma splitRuns_nonempty: "[] \<notin> set (map fst (splitRuns policy ps))"
proof (induction policy ps rule: splitRuns.induct)
  case (3 policy p q rest)
  show ?case
  proof (cases "policy p q")
    case None
    with 3 show ?thesis by (cases "splitRuns policy (q # rest)") auto
  next
    case (Some b)
    with 3 show ?thesis by simp
  qed
qed simp_all

lemma points_annotate: "map points (annotate openedBy runs) = map fst runs"
  by (induction openedBy runs rule: annotate.induct) (simp_all add: mkPartial_def Let_def)

text \<open>
  C8. Whatever the boundary policy, and in particular for the policy of the rules with
  any thresholds, the point sequences of the partials the segmenter emits, concatenated
  in the order of emission, are the input sequence, and no partial is empty: every input
  point is in exactly one partial, in the original order.
\<close>

theorem segment_partitions_input:
  "concat (map points (segment policy flightPoints)) = flightPoints
   \<and> [] \<notin> set (map points (segment policy flightPoints))
   \<and> concat (map points (segment (boundaryBetween X c) flightPoints)) = flightPoints
   \<and> [] \<notin> set (map points (segment (boundaryBetween X c) flightPoints))"
  using splitRuns_nonempty [of policy flightPoints]
    splitRuns_nonempty [of "boundaryBetween X c" flightPoints]
  by (simp add: segment_def points_annotate splitRuns_concat)

section \<open>The merge on inputs that share no sample\<close>








subsection \<open>The dictionary\<close>














subsection \<open>The shape of the result\<close>




section \<open>The merged trace as an ordered union\<close>


















section \<open>What the merge writes into its inputs\<close>




section \<open>Merging a trace with a copy of itself\<close>












text \<open>The order of the strings matters: a trace with the absolute timestamps 9 and 10,
  merged with a separate copy of itself, comes back as 10 followed by 9.\<close>

lemma merge_with_copy_string_order:
  "mergedTimestamps exampleExternals
     [Some (exampleTrace 1 [8, 9]), Some (exampleTrace 1 [18, 19])] exampleStore
   = [Num 10, Num 9]
   \<and> decodedTimestamps exampleExternals (exampleTrace 1 [8, 9]) exampleStore = [Num 9, Num 10]"
  by code_simp

end
